theory Spec2Isabelle
  imports Complex_Main "HOL-Library.Word"
begin

section \<open>LiveTranslate: display helpers, REST handlers and the transcription relay\<close>

text \<open>
  The server modules (schema, routes, storage) are the parts of
  \<^verbatim>\<open>src/client/screens/HistoryScreen.tsx\<close> from line 452 on; line numbers below refer to
  that file unless another is named.

  JavaScript numbers are modelled as real numbers: every finite double is one. The code
  modelled here compares them and supplies defaults for them; where it adds and divides
  them (the average of \<open>finalize\<close>) the arithmetic of doubles is a parameter, and so is
  the rounding of a single-precision column. A decimal literal of the source stands for the
  double nearest to it. \<open>NaN\<close> and the infinities cannot arrive in a JSON body and are
  left out; an absent value (\<open>undefined\<close>) is \<open>None\<close>.
\<close>

subsection \<open>Confidence shown as opacity (RecordScreen.tsx 402--407, SessionDetailScreen.tsx 81--86)\<close>

text \<open>
  \<^verbatim>\<open>
  function getConfidenceOpacity(confidence?: number): number {
    if (!confidence) return 1;
    if (confidence >= 0.9) return 1;
    if (confidence >= 0.7) return 0.8;
    return 0.5;
  }
  \<close>
  \<open>!confidence\<close> holds for \<open>undefined\<close> and for \<open>0\<close>.
\<close>

definition getConfidenceOpacity :: "real option \<Rightarrow> real" where
  "getConfidenceOpacity confidence =
     (case confidence of
        None \<Rightarrow> 1
      | Some c \<Rightarrow>
          if c = 0 then 1
          else if c \<ge> 0.9 then 1
          else if c \<ge> 0.7 then 0.8
          else 0.5)"

subsection \<open>JavaScript values\<close>

text \<open>
  Request bodies of the REST handlers are read through typed optional fields: a string field
  is \<open>string option\<close>, a number field \<open>real option\<close>, with \<open>None\<close> for an absent
  field. The operator \<open>a || b\<close> yields \<open>a\<close> when \<open>a\<close> is truthy (a non-empty string, a
  non-zero number) and \<open>b\<close> otherwise.
\<close>

definition truthy_str :: "string option \<Rightarrow> bool" where
  "truthy_str a = (case a of None \<Rightarrow> False | Some s \<Rightarrow> s \<noteq> [])"

definition or_str :: "string option \<Rightarrow> string option \<Rightarrow> string option" where
  "or_str a b = (if truthy_str a then a else b)"

definition or_real :: "real option \<Rightarrow> real \<Rightarrow> real" where
  "or_real a d = (case a of None \<Rightarrow> d | Some x \<Rightarrow> if x \<noteq> 0 then x else d)"

subsection \<open>What the server takes from outside (HistoryScreen.tsx 555--592)\<close>

text \<open>
  JSON text that was parsed: \<open>JSON.parse\<close> yields one of these values. An object lists
  each of its properties once. \<open>undefined\<close> is \<open>None\<close> of \<open>json option\<close>.
\<close>

datatype json =
    JNull
  | JBool bool
  | JNum real
  | JStr string
  | JArr "json list"
  | JObj "(string \<times> json) list"

text \<open>What arrives in a WebSocket \<open>message\<close> event: a string or a \<open>Buffer\<close> of bytes.\<close>

datatype ws_data = Str string | Buf "8 word list"

text \<open>
  The outcome of the \<open>fetch\<close> in \<open>translateWithLemur\<close>: the call (or reading the body
  as JSON) throws, the response is not \<open>ok\<close>, or the body parsed to a value.
\<close>

datatype lemur_reply = FetchThrows | NotOk | Body json

text \<open>
  Library calls and process environment. \<open>jwt_verify token secret\<close> is the \<open>userId\<close> of
  the verified payload, \<open>None\<close> when \<open>jwt.verify\<close> throws; \<open>bcrypt_compare\<close> is
  \<open>None\<close> when the promise rejects; \<open>JSON_parse d\<close> is \<open>JSON.parse(d.toString())\<close>,
  \<open>None\<close> when it throws; \<open>lemur_fetch text source target key\<close> stands for the request
  to the translation endpoint, whose prompt and body are built from these four values.
  \<open>double_add\<close> and \<open>double_div\<close> are \<open>+\<close> and \<open>/\<close> on doubles; the sums and
  quotients taken here are finite. \<open>real_col\<close> and \<open>text_col\<close> say what the database
  stores in a \<open>real\<close> column and accepts in a \<open>text\<close> column.
\<close>

record env =
  SESSION_SECRET :: "string option"
  ASSEMBLYAI_API_KEY :: "string option"
  jwt_verify :: "json option \<Rightarrow> string \<Rightarrow> string option"
  jwt_sign :: "string \<Rightarrow> string \<Rightarrow> string"
  bcrypt_compare :: "string \<Rightarrow> string \<Rightarrow> bool option"
  JSON_parse :: "ws_data \<Rightarrow> json option"
  lemur_fetch :: "string \<Rightarrow> json \<Rightarrow> json \<Rightarrow> string \<Rightarrow> lemur_reply"
  double_add :: "real \<Rightarrow> real \<Rightarrow> real"
  double_div :: "real \<Rightarrow> real \<Rightarrow> real"
  real_col :: "real \<Rightarrow> real option"
  text_col :: "string \<Rightarrow> bool"

definition JWT_SECRET :: "env \<Rightarrow> string" where
  "JWT_SECRET e =
     (case or_str (SESSION_SECRET e) (Some ''dev-secret-change-in-prod'') of
        Some s \<Rightarrow> s | None \<Rightarrow> ''dev-secret-change-in-prod'')"

definition verifyToken :: "env \<Rightarrow> json option \<Rightarrow> string option" where
  "verifyToken e token = jwt_verify e token (JWT_SECRET e)"

subsection \<open>Reading parsed JSON\<close>

text \<open>Truthiness of a value, as \<open>!v\<close>, \<open>v || d\<close> and \<open>v && w\<close> test it.\<close>

fun truthy :: "json option \<Rightarrow> bool" where
  "truthy None = False"
| "truthy (Some JNull) = False"
| "truthy (Some (JBool b)) = b"
| "truthy (Some (JNum n)) = (n \<noteq> 0)"
| "truthy (Some (JStr s)) = (s \<noteq> [])"
| "truthy (Some (JArr xs)) = True"
| "truthy (Some (JObj kvs)) = True"

text \<open>
  \<open>v.k\<close> for a value \<open>v\<close> that is not \<open>null\<close>: the property of an object, and
  \<open>undefined\<close> on every other value (none of the names read below is a property of a
  string, number, boolean or array). On \<open>null\<close> the access throws; the handlers test for
  \<open>JNull\<close> before they read.
\<close>

definition get_prop :: "json \<Rightarrow> string \<Rightarrow> json option" where
  "get_prop v k = (case v of JObj kvs \<Rightarrow> map_of kvs k | _ \<Rightarrow> None)"

definition or_js :: "json option \<Rightarrow> json \<Rightarrow> json" where
  "or_js a d = (case a of None \<Rightarrow> d | Some v \<Rightarrow> if truthy (Some v) then v else d)"

text \<open>
  \<open>a === b\<close> on two values taken from different properties of a parsed message:
  primitives are compared by value, two arrays or objects are never the same object.
\<close>

fun strict_eq :: "json \<Rightarrow> json \<Rightarrow> bool" where
  "strict_eq JNull JNull = True"
| "strict_eq (JBool a) (JBool b) = (a = b)"
| "strict_eq (JNum a) (JNum b) = (a = b)"
| "strict_eq (JStr a) (JStr b) = (a = b)"
| "strict_eq a b = False"

text \<open>
  \<open>String.prototype.trim\<close>. A \<open>char\<close> is read as a code unit below 256; the white space
  and line terminators in that range are TAB, LF, VT, FF, CR, SP and NBSP.
\<close>

definition is_js_space :: "char \<Rightarrow> bool" where
  "is_js_space c = (of_char c \<in> {9, 10, 11, 12, 13, 32, 160 :: nat})"

definition js_trim :: "string \<Rightarrow> string" where
  "js_trim s = rev (dropWhile is_js_space (rev (dropWhile is_js_space s)))"

text \<open>\<open>buffer.toString("base64")\<close>: the standard alphabet, padded with \<open>=\<close>.\<close>

definition b64_alphabet :: string where
  "b64_alphabet = ''ABCDEFGHIJKLMNOPQRSTUVWXYZabcdefghijklmnopqrstuvwxyz0123456789+/''"

definition b64_char :: "nat \<Rightarrow> char" where
  "b64_char n = b64_alphabet ! (n mod 64)"

fun base64 :: "8 word list \<Rightarrow> string" where
  "base64 [] = []"
| "base64 [a] =
     [b64_char (unat a div 4), b64_char (unat a mod 4 * 16), CHR ''='', CHR ''='']"
| "base64 [a, b] =
     [b64_char (unat a div 4), b64_char (unat a mod 4 * 16 + unat b div 16),
      b64_char (unat b mod 16 * 4), CHR ''='']"
| "base64 (a # b # c # rest) =
     [b64_char (unat a div 4), b64_char (unat a mod 4 * 16 + unat b div 16),
      b64_char (unat b mod 16 * 4 + unat c div 64), b64_char (unat c mod 64)] @ base64 rest"

subsection \<open>Schema and storage (HistoryScreen.tsx 452--551 and 992--1094)\<close>

text \<open>
  Rows carry the columns the handlers read or write. Columns filled in by the database
  alone (\<open>createdAt\<close>, the serial \<open>id\<close> of an utterance, \<open>words\<close>,
  \<open>lowConfidenceWordCount\<close>, \<open>transcriptionCompletionTime\<close>) are left out. A nullable
  column is an \<open>option\<close>. The database is taken to be reachable; what it does with a value
  depends on the column:
  \<^item> an \<open>integer\<close> column is 32 bits wide and takes a number only if it is an integer in
    that range (\<open>integer_col\<close>);
  \<^item> a \<open>real\<close> column keeps single precision: \<open>real_col e x\<close> is the number stored for
    the double \<open>x\<close>, \<open>None\<close> when the database rejects \<open>x\<close> as out of range;
  \<^item> a \<open>text\<close> column takes the strings for which \<open>text_col e\<close> holds.
  A statement with a rejected value fails as a whole, and the promise rejects.
\<close>

definition int32 :: "int \<Rightarrow> bool" where
  "int32 n = (- 2147483648 \<le> n \<and> n \<le> 2147483647)"

definition integer_col :: "real \<Rightarrow> int option" where
  "integer_col x = (if x = of_int \<lfloor>x\<rfloor> \<and> int32 \<lfloor>x\<rfloor> then Some \<lfloor>x\<rfloor> else None)"

record user =
  user_id :: string
  user_email :: string
  user_password :: string
  user_name :: string

record session_row =
  s_id :: int
  s_userId :: string
  s_sourceLanguage :: string
  s_targetLanguage :: string
  s_duration :: "int option"
  s_speakerCount :: "int option"
  s_avgConfidence :: "real option"
  s_totalWordCount :: "int option"

record utterance_row =
  ut_sessionId :: int
  ut_speakerLabel :: string
  ut_originalText :: string
  ut_translatedText :: string
  ut_startTime :: "int option"
  ut_endTime :: "int option"
  ut_confidence :: "real option"

record database =
  users :: "user list"
  transcriptionSessions :: "session_row list"
  utterances :: "utterance_row list"

text \<open>
  The values \<open>finalize\<close> hands to \<open>createUtterances\<close>, as JavaScript has them: the
  numbers are doubles, and the handler may compute \<open>undefined\<close> for the two texts, which
  are \<open>notNull\<close> in the schema.
\<close>

record utterance_values =
  v_sessionId :: int
  v_speakerLabel :: string
  v_originalText :: "string option"
  v_translatedText :: "string option"
  v_confidence :: real
  v_startTime :: real
  v_endTime :: real

definition getUserByEmail :: "database \<Rightarrow> string \<Rightarrow> user option" where
  "getUserByEmail db em = find (\<lambda>u. user_email u = em) (users db)"

definition getSessionById :: "database \<Rightarrow> int \<Rightarrow> session_row option" where
  "getSessionById db i = find (\<lambda>s. s_id s = i) (transcriptionSessions db)"

text \<open>
  One row of the multi-row insert; \<open>None\<close> when the database rejects it: a \<open>notNull\<close>
  column without a value, a value its column does not take, or a \<open>session_id\<close> that
  references no session.
\<close>

definition to_row :: "env \<Rightarrow> database \<Rightarrow> utterance_values \<Rightarrow> utterance_row option" where
  "to_row e db v =
     (case v_originalText v of
        None \<Rightarrow> None
      | Some ot \<Rightarrow>
     (case v_translatedText v of
        None \<Rightarrow> None
      | Some tt \<Rightarrow>
     (case integer_col (v_startTime v) of
        None \<Rightarrow> None
      | Some st \<Rightarrow>
     (case integer_col (v_endTime v) of
        None \<Rightarrow> None
      | Some en \<Rightarrow>
     (case real_col e (v_confidence v) of
        None \<Rightarrow> None
      | Some cf \<Rightarrow>
          if text_col e (v_speakerLabel v) \<and> text_col e ot \<and> text_col e tt
             \<and> getSessionById db (v_sessionId v) \<noteq> None
          then Some \<lparr> ut_sessionId = v_sessionId v, ut_speakerLabel = v_speakerLabel v,
                      ut_originalText = ot, ut_translatedText = tt,
                      ut_startTime = Some st, ut_endTime = Some en,
                      ut_confidence = Some cf \<rparr>
          else None)))))"

fun to_rows :: "env \<Rightarrow> database \<Rightarrow> utterance_values list \<Rightarrow> utterance_row list option" where
  "to_rows e db [] = Some []"
| "to_rows e db (v # vs) =
     (case to_row e db v of
        None \<Rightarrow> None
      | Some r \<Rightarrow> (case to_rows e db vs of None \<Rightarrow> None | Some rs \<Rightarrow> Some (r # rs)))"

definition createUtterances :: "env \<Rightarrow> database \<Rightarrow> utterance_values list \<Rightarrow> database option" where
  "createUtterances e db data =
     (if data = [] then Some db
      else case to_rows e db data of
             None \<Rightarrow> None
           | Some rows \<Rightarrow> Some (db\<lparr>utterances := utterances db @ rows\<rparr>))"

text \<open>
  The fields \<open>finalize\<close> passes to \<open>updateSession\<close>: the duration and the average as the
  doubles the handler has, the two counts as the integers it has counted.
\<close>

record session_update =
  up_duration :: real
  up_speakerCount :: int
  up_avgConfidence :: real
  up_totalWordCount :: int

text \<open>\<open>None\<close> when the database rejects the update; no row is changed then.\<close>

definition updateSession :: "env \<Rightarrow> database \<Rightarrow> int \<Rightarrow> session_update \<Rightarrow> database option" where
  "updateSession e db i d =
     (case integer_col (up_duration d) of
        None \<Rightarrow> None
      | Some du \<Rightarrow>
     (case real_col e (up_avgConfidence d) of
        None \<Rightarrow> None
      | Some av \<Rightarrow>
          if int32 (up_speakerCount d) \<and> int32 (up_totalWordCount d)
          then Some (db\<lparr>transcriptionSessions :=
                          map (\<lambda>s. if s_id s = i
                                    then s\<lparr>s_duration := Some du,
                                           s_speakerCount := Some (up_speakerCount d),
                                           s_avgConfidence := Some av,
                                           s_totalWordCount := Some (up_totalWordCount d)\<rparr>
                                    else s)
                              (transcriptionSessions db)\<rparr>)
          else None))"

subsection \<open>REST handlers (HistoryScreen.tsx 570--584, 698--726, 788--836)\<close>

datatype body =
    ErrorBody string
  | AuthBody string string string string
  | SuccessBody int

datatype response = Response nat body

definition authMiddleware :: "env \<Rightarrow> string option \<Rightarrow> response + string" where
  "authMiddleware e authHeader =
     (case authHeader of
        None \<Rightarrow> Inl (Response 401 (ErrorBody ''Unauthorized''))
      | Some h \<Rightarrow>
          if take 7 h \<noteq> ''Bearer '' then Inl (Response 401 (ErrorBody ''Unauthorized''))
          else (case jwt_verify e (Some (JStr (drop 7 h))) (JWT_SECRET e) of
                  None \<Rightarrow> Inl (Response 401 (ErrorBody ''Invalid token''))
                | Some userId \<Rightarrow> Inr userId))"

text \<open>
  The body of a login request. The password is whatever JSON value the client put there;
  the email is read as the string the user lookup compares with.
\<close>

record login_body =
  email :: "string option"
  password :: "json option"

text \<open>
  \<open>bcrypt.compare(password, user.password)\<close>: the library rejects the promise
  ("Illegal arguments") when the password is not a string, before it compares anything.
\<close>

definition compare_password :: "env \<Rightarrow> json \<Rightarrow> string \<Rightarrow> bool option" where
  "compare_password e pw hash =
     (case pw of JStr s \<Rightarrow> bcrypt_compare e s hash | _ \<Rightarrow> None)"

text \<open>
  \<open>POST /api/auth/login\<close>. \<open>AuthBody token id email name\<close> is the success body
  \<open>{token, user: {id, email, name}}\<close>, sent with the default status 200. A rejected
  promise is caught by the handler's \<open>try\<close> and answered with status 500.
\<close>

definition login :: "env \<Rightarrow> database \<Rightarrow> login_body \<Rightarrow> response" where
  "login e db req =
     (if \<not> truthy_str (email req) \<or> \<not> truthy (password req)
      then Response 400 (ErrorBody ''Email and password are required'')
      else case getUserByEmail db (the (email req)) of
             None \<Rightarrow> Response 401 (ErrorBody ''Invalid email or password'')
           | Some u \<Rightarrow>
               (case compare_password e (the (password req)) (user_password u) of
                  None \<Rightarrow> Response 500 (ErrorBody ''Login failed'')
                | Some validPassword \<Rightarrow>
                    if \<not> validPassword
                    then Response 401 (ErrorBody ''Invalid email or password'')
                    else Response 200
                           (AuthBody (jwt_sign e (user_id u) (JWT_SECRET e))
                              (user_id u) (user_email u) (user_name u))))"

text \<open>
  An element of the \<open>utterances\<close> array of a finalize request (\<open>u: any\<close>), read through
  typed optional fields, with the types the client gives them when it builds the request
  (RecordScreen.tsx 379--389): strings for the speaker and the texts, JSON numbers for the
  confidence and the times. A field of another type is outside this model.
\<close>

record utterance_input =
  in_speaker :: "string option"
  in_originalText :: "string option"
  in_translatedText :: "string option"
  in_text :: "string option"
  in_confidence :: "real option"
  in_startTime :: "real option"
  in_endTime :: "real option"

record finalize_body =
  duration :: "real option"
  utterances_in :: "utterance_input list option"

text \<open>The callback of \<open>utterances.map((u, i) => ...)\<close>.\<close>

definition utterance_value :: "int \<Rightarrow> nat \<Rightarrow> utterance_input \<Rightarrow> utterance_values" where
  "utterance_value sessionId i u =
     \<lparr> v_sessionId = sessionId,
       v_speakerLabel = (case or_str (in_speaker u) (Some ''A'') of
                           Some s \<Rightarrow> s | None \<Rightarrow> ''A''),
       v_originalText = or_str (in_originalText u) (in_text u),
       v_translatedText = or_str (in_translatedText u) (in_text u),
       v_confidence = or_real (in_confidence u) 0.9,
       v_startTime = or_real (in_startTime u) (real i * 5000),
       v_endTime = or_real (in_endTime u) ((real i + 1) * 5000) \<rparr>"

definition utteranceData :: "int \<Rightarrow> utterance_input list \<Rightarrow> utterance_values list" where
  "utteranceData sessionId us =
     map (\<lambda>(i, u). utterance_value sessionId i u) (enumerate 0 us)"

text \<open>
  \<open>utterances.reduce((sum, u) => sum + (u.confidence || 0.9), 0) / utterances.length\<close>,
  in the arithmetic of doubles. For a non-empty list the handler gets here only after the
  insert has taken every one of these confidences into a single-precision column, so each
  is below \<open>2^128\<close> in size and the sum of a request's confidences stays a finite double.
\<close>

definition avgConfidence :: "env \<Rightarrow> utterance_input list option \<Rightarrow> real" where
  "avgConfidence e us =
     (case us of
        None \<Rightarrow> 0.9
      | Some l \<Rightarrow>
          if length l > 0
          then double_div e
                 (foldl (\<lambda>sum u. double_add e sum (or_real (in_confidence u) 0.9)) 0 l)
                 (real (length l))
          else 0.9)"

definition speakerCount :: "utterance_input list option \<Rightarrow> int" where
  "speakerCount us =
     (case us of None \<Rightarrow> 1 | Some l \<Rightarrow> int (length (remdups (map in_speaker l))))"

text \<open>\<open>s.split(" ").length\<close>: one more than the number of spaces.\<close>

definition split_length :: "string \<Rightarrow> int" where
  "split_length s = int (length (filter (\<lambda>c. c = CHR '' '') s)) + 1"

definition totalWordCount :: "utterance_input list option \<Rightarrow> int" where
  "totalWordCount us =
     (case us of
        None \<Rightarrow> 0
      | Some l \<Rightarrow>
          foldl (\<lambda>sum u. sum + split_length
                   (case or_str (or_str (in_translatedText u) (in_text u)) (Some []) of
                      Some s \<Rightarrow> s | None \<Rightarrow> []))
                0 l)"

text \<open>
  \<open>POST /api/sessions/:id/finalize\<close>, after \<open>authMiddleware\<close> has set \<open>userId\<close>;
  \<open>sessionId\<close> is the parsed path parameter. The result is the response and the database
  the handler leaves behind. The insert and the update are two statements without a
  transaction: when the update is rejected the inserted rows stay.
\<close>

definition finalize ::
  "env \<Rightarrow> database \<Rightarrow> string \<Rightarrow> int \<Rightarrow> finalize_body \<Rightarrow> response \<times> database" where
  "finalize e db userId sessionId req =
     (case getSessionById db sessionId of
        None \<Rightarrow> (Response 404 (ErrorBody ''Session not found''), db)
      | Some session \<Rightarrow>
          if s_userId session \<noteq> userId
          then (Response 404 (ErrorBody ''Session not found''), db)
          else
            (case (case utterances_in req of
                     None \<Rightarrow> Some db
                   | Some us \<Rightarrow>
                       if length us > 0
                       then createUtterances e db (utteranceData sessionId us)
                       else Some db) of
               None \<Rightarrow> (Response 500 (ErrorBody ''Failed to finalize session''), db)
             | Some db1 \<Rightarrow>
                 (case updateSession e db1 sessionId
                         \<lparr> up_duration = or_real (duration req) 0,
                           up_speakerCount = speakerCount (utterances_in req),
                           up_avgConfidence = avgConfidence e (utterances_in req),
                           up_totalWordCount = totalWordCount (utterances_in req) \<rparr> of
                    None \<Rightarrow> (Response 500 (ErrorBody ''Failed to finalize session''), db1)
                  | Some db2 \<Rightarrow> (Response 200 (SuccessBody sessionId), db2))))"

subsection \<open>Translation call (HistoryScreen.tsx 617--662, translateWithLemur)\<close>

text \<open>
  The result is \<open>None\<close> when the function throws: \<open>text.trim()\<close> on a truthy value that
  is not a string, before the \<open>try\<close>. Everything that fails inside the \<open>try\<close> (the
  request, a body that is \<open>null\<close>, a \<open>response\<close> that has no \<open>trim\<close>) returns the
  text unchanged, as do a response that is not \<open>ok\<close> and an empty translation.
\<close>

definition translateWithLemur :: "env \<Rightarrow> json \<Rightarrow> json \<Rightarrow> json \<Rightarrow> string \<Rightarrow> json option" where
  "translateWithLemur e text sourceLanguage targetLanguage apiKey =
     (if \<not> truthy (Some text) then Some text
      else case text of
             JStr s \<Rightarrow>
               if length (js_trim s) = 0 then Some text
               else if strict_eq sourceLanguage targetLanguage then Some text
               else (case lemur_fetch e s sourceLanguage targetLanguage apiKey of
                       FetchThrows \<Rightarrow> Some text
                     | NotOk \<Rightarrow> Some text
                     | Body result \<Rightarrow>
                         if result = JNull then Some text
                         else (case get_prop result ''response'' of
                                 Some (JStr r) \<Rightarrow>
                                   if js_trim r \<noteq> [] then Some (JStr (js_trim r))
                                   else Some text
                               | _ \<Rightarrow> Some text))
           | _ \<Rightarrow> None)"

subsection \<open>The transcription relay (HistoryScreen.tsx 843--988, the \<open>connection\<close> handler)\<close>

datatype readyState = CONNECTING | OPEN | CLOSING | CLOSED

text \<open>
  \<open>socket.close()\<close> starts the closing handshake; the socket is \<open>CLOSED\<close> once its
  \<open>close\<close> event has fired.
\<close>

definition ws_close :: "readyState \<Rightarrow> readyState" where
  "ws_close r = (if r = CLOSED then CLOSED else CLOSING)"

record translation =
  tr_speaker :: string
  tr_originalText :: json
  tr_translatedText :: string
  tr_confidence :: json
  tr_startTime :: json
  tr_endTime :: json

text \<open>The objects the relay serialises to the client and to the provider.\<close>

datatype server_message =
    Error_message string
  | Auth_success
  | Ready
  | Stopped
  | Translation translation

fun message_type :: "server_message \<Rightarrow> string" where
  "message_type (Error_message m) = ''error''"
| "message_type Auth_success = ''auth_success''"
| "message_type Ready = ''ready''"
| "message_type Stopped = ''stopped''"
| "message_type (Translation t) = ''translation''"

datatype provider_message = Terminate_session | Audio_data string

text \<open>
  A socket is its \<open>readyState\<close> and the arguments of the \<open>send\<close> calls made on it, in
  order.
\<close>

record client_socket =
  c_readyState :: readyState
  c_sent :: "server_message list"

record provider_socket =
  p_readyState :: readyState
  p_sent :: "provider_message list"

record session_config =
  cfg_sessionId :: "json option"
  cfg_sourceLanguage :: json
  cfg_targetLanguage :: json
  cfg_userId :: "json option"

text \<open>
  The variables of one connection. \<open>provider_sockets\<close> holds every socket that
  \<open>new WebSocket(assemblyUrl, ...)\<close> has created on this connection, in creation order;
  \<open>assemblyWs\<close> refers to one of them by position, \<open>None\<close> is \<open>null\<close>.
\<close>

record connection =
  clientWs :: client_socket
  provider_sockets :: "provider_socket list"
  assemblyWs :: "nat option"
  sessionConfig :: "session_config option"
  isAuthenticated :: bool
  assemblyApiKey :: "string option"

definition new_connection :: connection where
  "new_connection =
     \<lparr> clientWs = \<lparr> c_readyState = OPEN, c_sent = [] \<rparr>,
       provider_sockets = [],
       assemblyWs = None,
       sessionConfig = None,
       isAuthenticated = False,
       assemblyApiKey = None \<rparr>"

definition client_send :: "server_message \<Rightarrow> connection \<Rightarrow> connection" where
  "client_send m c = c\<lparr>clientWs := (clientWs c)\<lparr>c_sent := c_sent (clientWs c) @ [m]\<rparr>\<rparr>"

definition client_close :: "connection \<Rightarrow> connection" where
  "client_close c =
     c\<lparr>clientWs := (clientWs c)\<lparr>c_readyState := ws_close (c_readyState (clientWs c))\<rparr>\<rparr>"

text \<open>\<open>assemblyWs && assemblyWs.readyState === WebSocket.OPEN\<close>, with the socket's position.\<close>

definition assembly_open :: "connection \<Rightarrow> nat option" where
  "assembly_open c =
     (case assemblyWs c of
        None \<Rightarrow> None
      | Some i \<Rightarrow>
          if i < length (provider_sockets c) \<and> p_readyState (provider_sockets c ! i) = OPEN
          then Some i else None)"

definition provider_send :: "nat \<Rightarrow> provider_message \<Rightarrow> connection \<Rightarrow> connection" where
  "provider_send i m c =
     c\<lparr>provider_sockets :=
          (provider_sockets c)[i := (provider_sockets c ! i)
                                      \<lparr>p_sent := p_sent (provider_sockets c ! i) @ [m]\<rparr>]\<rparr>"

definition provider_close :: "nat \<Rightarrow> connection \<Rightarrow> connection" where
  "provider_close i c =
     c\<lparr>provider_sockets :=
          (provider_sockets c)[i := (provider_sockets c ! i)
                \<lparr>p_readyState := ws_close (p_readyState (provider_sockets c ! i))\<rparr>]\<rparr>"

text \<open>
  The block shared by the \<open>stop\<close> branch and the client's \<open>close\<close> handler:
  \<^verbatim>\<open>
  if (assemblyWs && assemblyWs.readyState === WebSocket.OPEN) {
    assemblyWs.send(JSON.stringify({ terminate_session: true }));
    assemblyWs.close();
  }
  \<close>
\<close>

definition terminate_assembly :: "connection \<Rightarrow> connection" where
  "terminate_assembly c =
     (case assembly_open c of
        None \<Rightarrow> c
      | Some i \<Rightarrow> provider_close i (provider_send i Terminate_session c))"

text \<open>
  The \<open>message\<close> handler of a provider socket. It reads \<open>sessionConfig\<close> and
  \<open>assemblyApiKey\<close> of the connection as they are when the message arrives, and sends on
  \<open>clientWs\<close> when the translation has returned. The two branches that only log
  (\<open>SessionBegins\<close>, \<open>SessionTerminated\<close>) change nothing. A \<open>TypeError\<close> or a
  \<open>SyntaxError\<close> is caught by the handler's \<open>try\<close> and logged.
\<close>

definition translated_text :: "env \<Rightarrow> connection \<Rightarrow> json \<Rightarrow> json option" where
  "translated_text e c text =
     (case sessionConfig c of
        None \<Rightarrow> Some text
      | Some cfg \<Rightarrow>
          if \<not> strict_eq (cfg_sourceLanguage cfg) (cfg_targetLanguage cfg)
             \<and> truthy_str (assemblyApiKey c)
          then translateWithLemur e text (cfg_sourceLanguage cfg) (cfg_targetLanguage cfg)
                 (the (assemblyApiKey c))
          else Some text)"

definition on_assembly_message :: "env \<Rightarrow> connection \<Rightarrow> ws_data \<Rightarrow> connection" where
  "on_assembly_message e c assemblyData =
     (case JSON_parse e assemblyData of
        None \<Rightarrow> c
      | Some result \<Rightarrow>
          if result = JNull then c
          else if get_prop result ''message_type'' = Some (JStr ''FinalTranscript'')
                  \<and> truthy (get_prop result ''text'')
          then (case translated_text e c (the (get_prop result ''text'')) of
                  Some (JStr translatedText) \<Rightarrow>
                    client_send
                      (Translation
                         \<lparr> tr_speaker = ''A'',
                           tr_originalText = the (get_prop result ''text''),
                           tr_translatedText = js_trim translatedText,
                           tr_confidence = or_js (get_prop result ''confidence'') (JNum 0.9),
                           tr_startTime = or_js (get_prop result ''audio_start'') (JNum 0),
                           tr_endTime = or_js (get_prop result ''audio_end'') (JNum 0) \<rparr>)
                      c
                | _ \<Rightarrow> c)
          else c)"

definition on_assembly_open :: "connection \<Rightarrow> connection" where
  "on_assembly_open c = client_send Ready c"

definition on_assembly_error :: "connection \<Rightarrow> connection" where
  "on_assembly_error c = client_send (Error_message ''Transcription service error'') c"

definition on_assembly_close :: "connection \<Rightarrow> connection" where
  "on_assembly_close c = c"

text \<open>
  \<open>typeof data === "string" || (data instanceof Buffer && data[0] === 123)\<close>
\<close>

definition is_control :: "ws_data \<Rightarrow> bool" where
  "is_control data =
     (case data of
        Str s \<Rightarrow> True
      | Buf bs \<Rightarrow> (case bs of [] \<Rightarrow> False | b # rest \<Rightarrow> b = 123))"

definition on_auth :: "env \<Rightarrow> connection \<Rightarrow> json \<Rightarrow> connection" where
  "on_auth e c message =
     (case verifyToken e (get_prop message ''token'') of
        None \<Rightarrow> client_close (client_send (Error_message ''Authentication failed'') c)
      | Some decoded \<Rightarrow> client_send Auth_success (c\<lparr>isAuthenticated := True\<rparr>))"

definition on_start :: "env \<Rightarrow> connection \<Rightarrow> json \<Rightarrow> connection" where
  "on_start e c message =
     (if \<not> isAuthenticated c then client_send (Error_message ''Not authenticated'') c
      else
        let c1 = c\<lparr>sessionConfig :=
                      Some \<lparr> cfg_sessionId = get_prop message ''sessionId'',
                             cfg_sourceLanguage =
                               or_js (get_prop message ''sourceLanguage'') (JStr ''es''),
                             cfg_targetLanguage =
                               or_js (get_prop message ''targetLanguage'') (JStr ''en''),
                             cfg_userId = get_prop message ''userId'' \<rparr>,
                   assemblyApiKey := or_str (ASSEMBLYAI_API_KEY e) None\<rparr>
        in if \<not> truthy_str (assemblyApiKey c1)
           then client_send (Error_message ''AssemblyAI API key not configured'') c1
           else c1\<lparr>provider_sockets :=
                       provider_sockets c1 @ [\<lparr> p_readyState = CONNECTING, p_sent = [] \<rparr>],
                    assemblyWs := Some (length (provider_sockets c1))\<rparr>)"

definition on_stop :: "connection \<Rightarrow> connection" where
  "on_stop c = client_send Stopped (terminate_assembly c)"

text \<open>
  The \<open>message\<close> handler of the client socket. Whatever throws inside it (the parse, a
  property read on \<open>null\<close>) is caught and logged, and the handler returns.
\<close>

definition on_client_message :: "env \<Rightarrow> connection \<Rightarrow> ws_data \<Rightarrow> connection" where
  "on_client_message e c data =
     (if is_control data then
        (case JSON_parse e data of
           None \<Rightarrow> c
         | Some message \<Rightarrow>
             if message = JNull then c
             else if get_prop message ''type'' = Some (JStr ''auth'') then on_auth e c message
             else if get_prop message ''type'' = Some (JStr ''start'') then on_start e c message
             else if get_prop message ''type'' = Some (JStr ''stop'') then on_stop c
             else c)
      else
        (case data of
           Buf bs \<Rightarrow>
             (case assembly_open c of
                None \<Rightarrow> c
              | Some i \<Rightarrow> provider_send i (Audio_data (base64 bs)) c)
         | Str s \<Rightarrow> c))"

definition on_client_close :: "connection \<Rightarrow> connection" where
  "on_client_close c = terminate_assembly c"

text \<open>
  What can happen on a connection. A socket event first changes the socket's
  \<open>readyState\<close> as the WebSocket library does (\<open>open\<close>: \<open>CONNECTING\<close> to \<open>OPEN\<close>;
  \<open>error\<close>: the library starts closing the socket before it emits the event, so the
  socket is \<open>CLOSING\<close>; \<open>close\<close>: to \<open>CLOSED\<close>), then the handler registered for it
  runs. An event of a provider socket that was never created does not occur.
\<close>

datatype event =
    ClientMessage ws_data
  | ClientClose
  | ClientError
  | AssemblyOpen nat
  | AssemblyMessage nat ws_data
  | AssemblyError nat
  | AssemblyClose nat

definition set_provider_state :: "nat \<Rightarrow> readyState \<Rightarrow> connection \<Rightarrow> connection" where
  "set_provider_state i r c =
     c\<lparr>provider_sockets :=
          (provider_sockets c)[i := (provider_sockets c ! i)\<lparr>p_readyState := r\<rparr>]\<rparr>"

fun step :: "env \<Rightarrow> connection \<Rightarrow> event \<Rightarrow> connection" where
  "step e c (ClientMessage data) = on_client_message e c data"
| "step e c ClientClose =
     on_client_close (c\<lparr>clientWs := (clientWs c)\<lparr>c_readyState := CLOSED\<rparr>\<rparr>)"
| "step e c ClientError = c"
| "step e c (AssemblyOpen i) =
     (if i < length (provider_sockets c) \<and> p_readyState (provider_sockets c ! i) = CONNECTING
      then on_assembly_open (set_provider_state i OPEN c) else c)"
| "step e c (AssemblyMessage i data) =
     (if i < length (provider_sockets c) then on_assembly_message e c data else c)"
| "step e c (AssemblyError i) =
     (if i < length (provider_sockets c)
      then on_assembly_error
             (set_provider_state i (ws_close (p_readyState (provider_sockets c ! i))) c)
      else c)"
| "step e c (AssemblyClose i) =
     (if i < length (provider_sockets c)
      then on_assembly_close (set_provider_state i CLOSED c) else c)"

definition run :: "env \<Rightarrow> connection \<Rightarrow> event list \<Rightarrow> connection" where
  "run e c evs = foldl (step e) c evs"

section \<open>Vocabulary of the properties\<close>

subsection \<open>Finalize and login\<close>

text \<open>The arithmetic mean, and the mean as the handler computes it on doubles.\<close>

definition arithmetic_mean :: "real list \<Rightarrow> real" where
  "arithmetic_mean xs = sum_list xs / real (length xs)"

definition double_mean :: "env \<Rightarrow> real list \<Rightarrow> real" where
  "double_mean e xs = double_div e (foldl (double_add e) 0 xs) (real (length xs))"

text \<open>
  The row kept for the utterance at position \<open>i\<close> of a finalize request: each submitted
  field when it is present and truthy, the handler's default otherwise, as its column
  stores it.
\<close>

definition stored_utterance :: "env \<Rightarrow> int \<Rightarrow> nat \<Rightarrow> utterance_input \<Rightarrow> utterance_row" where
  "stored_utterance e sessionId i u =
     \<lparr> ut_sessionId = sessionId,
       ut_speakerLabel = (if truthy_str (in_speaker u) then the (in_speaker u) else ''A''),
       ut_originalText = the (or_str (in_originalText u) (in_text u)),
       ut_translatedText = the (or_str (in_translatedText u) (in_text u)),
       ut_startTime = integer_col (or_real (in_startTime u) (real i * 5000)),
       ut_endTime = integer_col (or_real (in_endTime u) ((real i + 1) * 5000)),
       ut_confidence = real_col e (or_real (in_confidence u) 0.9) \<rparr>"

text \<open>
  The utterance at position \<open>i\<close> has an original and a translated text (its own or
  \<open>text\<close>), and every value the handler computes for it is taken by its column.
\<close>

definition accepted_utterance :: "env \<Rightarrow> nat \<Rightarrow> utterance_input \<Rightarrow> bool" where
  "accepted_utterance e i u =
     ((case or_str (in_originalText u) (in_text u) of
         None \<Rightarrow> False | Some ot \<Rightarrow> text_col e ot) \<and>
      (case or_str (in_translatedText u) (in_text u) of
         None \<Rightarrow> False | Some tt \<Rightarrow> text_col e tt) \<and>
      text_col e (if truthy_str (in_speaker u) then the (in_speaker u) else ''A'') \<and>
      integer_col (or_real (in_startTime u) (real i * 5000)) \<noteq> None \<and>
      integer_col (or_real (in_endTime u) ((real i + 1) * 5000)) \<noteq> None \<and>
      real_col e (or_real (in_confidence u) 0.9) \<noteq> None)"

text \<open>Every value of the session update is taken by its column.\<close>

definition accepted_update :: "env \<Rightarrow> finalize_body \<Rightarrow> bool" where
  "accepted_update e req =
     (integer_col (or_real (duration req) 0) \<noteq> None \<and>
      real_col e (avgConfidence e (utterances_in req)) \<noteq> None \<and>
      int32 (speakerCount (utterances_in req)) \<and>
      int32 (totalWordCount (utterances_in req)))"

text \<open>Why a login request with a string password fails to authenticate, if it does.\<close>

datatype failure_cause = NoSuchUser | WrongPassword

definition login_failure :: "env \<Rightarrow> database \<Rightarrow> login_body \<Rightarrow> failure_cause option" where
  "login_failure e db req =
     (case (email req, password req) of
        (Some em, Some (JStr pw)) \<Rightarrow>
          if em \<noteq> [] \<and> pw \<noteq> []
          then case getUserByEmail db em of
                 None \<Rightarrow> Some NoSuchUser
               | Some u \<Rightarrow>
                   if bcrypt_compare e pw (user_password u) = Some False
                   then Some WrongPassword else None
          else None
      | _ \<Rightarrow> None)"

subsection \<open>Relay\<close>

text \<open>A control frame that parses to a message of the given type.\<close>

definition is_command :: "env \<Rightarrow> ws_data \<Rightarrow> string \<Rightarrow> bool" where
  "is_command e d t =
     (is_control d \<and>
      (case JSON_parse e d of
         None \<Rightarrow> False
       | Some message \<Rightarrow> get_prop message ''type'' = Some (JStr t)))"

text \<open>An \<open>auth\<close> message whose token verifies against the server secret.\<close>

definition successful_auth :: "env \<Rightarrow> event \<Rightarrow> bool" where
  "successful_auth e ev =
     (case ev of
        ClientMessage d \<Rightarrow>
          is_command e d ''auth'' \<and>
          (case JSON_parse e d of
             None \<Rightarrow> False
           | Some message \<Rightarrow> verifyToken e (get_prop message ''token'') \<noteq> None)
      | _ \<Rightarrow> False)"

definition unauthenticated :: "connection \<Rightarrow> bool" where
  "unauthenticated c = (\<not> isAuthenticated c \<and> provider_sockets c = [] \<and> assemblyWs c = None)"

text \<open>The audio messages sent to the provider on any socket of the connection.\<close>

fun is_audio :: "provider_message \<Rightarrow> bool" where
  "is_audio (Audio_data a) = True"
| "is_audio Terminate_session = False"

definition audio_sent :: "connection \<Rightarrow> provider_message list" where
  "audio_sent c = concat (map (\<lambda>s. filter is_audio (p_sent s)) (provider_sockets c))"

section \<open>Example data\<close>

definition demo_db :: database where
  "demo_db =
     \<lparr> users = [\<lparr> user_id = ''u1'', user_email = ''ana@example.org'',
                   user_password = ''hash:pw1'', user_name = ''Ana'' \<rparr>],
       transcriptionSessions =
         [\<lparr> s_id = 7, s_userId = ''u1'', s_sourceLanguage = ''es'', s_targetLanguage = ''en'',
             s_duration = Some 0, s_speakerCount = Some 1, s_avgConfidence = None,
             s_totalWordCount = Some 0 \<rparr>],
       utterances = [] \<rparr>"

definition demo_utterances :: "utterance_input list" where
  "demo_utterances =
     [\<lparr> in_speaker = Some ''A'', in_originalText = Some ''hola'',
         in_translatedText = Some ''hello'', in_text = None, in_confidence = Some 0.75,
         in_startTime = Some 0, in_endTime = Some 1200 \<rparr>,
      \<lparr> in_speaker = Some ''B'', in_originalText = Some ''buenos dias'',
         in_translatedText = Some ''good morning'', in_text = None, in_confidence = Some 0.5,
         in_startTime = Some 1500, in_endTime = Some 3000 \<rparr>]"

definition zero_confidence_utterance :: utterance_input where
  "zero_confidence_utterance =
     \<lparr> in_speaker = Some ''A'', in_originalText = Some ''hola'',
       in_translatedText = Some ''hello'', in_text = None, in_confidence = Some 0,
       in_startTime = Some 100, in_endTime = Some 1200 \<rparr>"

definition late_utterance :: utterance_input where
  "late_utterance =
     \<lparr> in_speaker = Some ''A'', in_originalText = Some ''hola'',
       in_translatedText = Some ''hello'', in_text = None, in_confidence = Some 0.75,
       in_startTime = Some 3000000000, in_endTime = Some 3000001200 \<rparr>"

text \<open>Frames of a client and of the provider, and what \<open>JSON.parse\<close> makes of them.\<close>

definition auth_frame :: ws_data where
  \<open>auth_frame = Str ''{"type":"auth","token":"token-of-u1"}''\<close>

definition start_frame :: ws_data where
  \<open>start_frame = Str ''{"type":"start","sessionId":7,"sourceLanguage":"es","targetLanguage":"en","userId":"u1"}''\<close>

definition stop_frame :: ws_data where
  \<open>stop_frame = Str ''{"type":"stop"}''\<close>

definition final_transcript :: ws_data where
  \<open>final_transcript = Str ''{"message_type":"FinalTranscript","text":"hola","confidence":0.8,"audio_start":100,"audio_end":900}''\<close>

definition empty_final_transcript :: ws_data where
  \<open>empty_final_transcript = Str ''{"message_type":"FinalTranscript","text":"","confidence":0,"audio_start":900,"audio_end":1500}''\<close>

text \<open>
  Two little-endian 16-bit samples, 123 and 16, as the client's audio capture sends them
  (\<open>send(int16Data.buffer)\<close>), and the same with a first sample of 122.
\<close>

definition pcm_frame :: ws_data where
  "pcm_frame = Buf [123, 0, 16, 0]"

definition pcm_frame' :: ws_data where
  "pcm_frame' = Buf [122, 0, 16, 0]"

text \<open>
  \<open>JSON.parse\<close> on the frames above; any other frame used in an example is not JSON
  (\<open>Buf [123, 0]\<close> and \<open>pcm_frame\<close> are an opening brace followed by a NUL byte).
\<close>

definition demo_parse :: "ws_data \<Rightarrow> json option" where
  "demo_parse = map_of
     [(auth_frame, JObj [(''type'', JStr ''auth''), (''token'', JStr ''token-of-u1'')]),
      (start_frame,
         JObj [(''type'', JStr ''start''), (''sessionId'', JNum 7),
               (''sourceLanguage'', JStr ''es''), (''targetLanguage'', JStr ''en''),
               (''userId'', JStr ''u1'')]),
      (stop_frame, JObj [(''type'', JStr ''stop'')]),
      (final_transcript,
         JObj [(''message_type'', JStr ''FinalTranscript''), (''text'', JStr ''hola''),
               (''confidence'', JNum 0.8), (''audio_start'', JNum 100),
               (''audio_end'', JNum 900)]),
      (empty_final_transcript,
         JObj [(''message_type'', JStr ''FinalTranscript''), (''text'', JStr []),
               (''confidence'', JNum 0), (''audio_start'', JNum 900),
               (''audio_end'', JNum 1500)])]"

text \<open>
  The library calls, on the values of the examples. Sums and quotients of the examples
  (0.75, 0.5, 1.25, 0.625, and 0.9 added to 0 and divided by 1) are exact in doubles, and
  all but 0.9 are single-precision numbers; the single nearest to the double 0.9 is
  15099494 / 16777216.
\<close>

definition demo_env :: env where
  "demo_env =
     \<lparr> SESSION_SECRET = Some ''s3cret'',
       ASSEMBLYAI_API_KEY = Some ''aai-key'',
       jwt_verify = (\<lambda>token secret.
          if token = Some (JStr ''token-of-u1'') \<and> secret = ''s3cret''
          then Some ''u1'' else None),
       jwt_sign = (\<lambda>userId secret. ''token-of-'' @ userId),
       bcrypt_compare = (\<lambda>pw hash. Some (hash = ''hash:'' @ pw)),
       JSON_parse = demo_parse,
       lemur_fetch = (\<lambda>text src tgt key.
          if text = ''hola'' \<and> src = JStr ''es'' \<and> tgt = JStr ''en'' \<and> key = ''aai-key''
          then Body (JObj [(''response'', JStr '' hello '')]) else FetchThrows),
       double_add = (\<lambda>x y. x + y),
       double_div = (\<lambda>x y. x / y),
       real_col = (\<lambda>x. if x = 0.9 then Some (15099494 / 16777216) else Some x),
       text_col = (\<lambda>s. CHR 0x00 \<notin> set s) \<rparr>"

text \<open>A connection that has authenticated, started, and whose provider socket has opened.\<close>

definition streaming :: connection where
  "streaming = run demo_env new_connection
     [ClientMessage auth_frame, ClientMessage start_frame, AssemblyOpen 0]"

section \<open>Properties\<close>

subsection \<open>Confidence buckets\<close>

text \<open>
  C9. The opacity of an utterance is 1 for a confidence of at least 0.9, 0.8 for a
  confidence in [0.7, 0.9), 0.5 for a confidence strictly between 0 and 0.7; a confidence of
  exactly 0 and an absent confidence both give the full opacity 1.
\<close>

theorem getConfidenceOpacity_buckets:
  "(c \<ge> 0.9 \<longrightarrow> getConfidenceOpacity (Some c) = 1) \<and>
   (0.7 \<le> c \<and> c < 0.9 \<longrightarrow> getConfidenceOpacity (Some c) = 0.8) \<and>
   (0 < c \<and> c < 0.7 \<longrightarrow> getConfidenceOpacity (Some c) = 0.5) \<and>
   getConfidenceOpacity (Some 0) = 1 \<and>
   getConfidenceOpacity None = 1"
  by (simp add: getConfidenceOpacity_def)

theorem getConfidenceOpacity_buckets_witness:
  "getConfidenceOpacity (Some 0.95) = 1 \<and>
   getConfidenceOpacity (Some 0.7) = 0.8 \<and>
   getConfidenceOpacity (Some 0.3) = 0.5 \<and>
   getConfidenceOpacity (Some 0) = 1 \<and>
   getConfidenceOpacity None = 1"
  using getConfidenceOpacity_buckets [of "0.95"]
        getConfidenceOpacity_buckets [of "0.7"]
        getConfidenceOpacity_buckets [of "0.3"]
  by simp

subsection \<open>Login failures\<close>

text \<open>
  With a string password, a login request that fails to authenticate gets status 401 with
  the error string "Invalid email or password" whether no user has the given email or the
  password does not match.
\<close>

lemma login_string_password_failures:
  assumes "login_failure e db req = Some c" and "login_failure e' db' req' = Some c'"
  shows "login e db req = Response 401 (ErrorBody ''Invalid email or password'') \<and>
         login e' db' req' = login e db req"
  using assms
  by (auto simp: login_failure_def login_def compare_password_def truthy_str_def
           split: if_splits option.splits json.splits)

text \<open>
  C10 fails on the handler. A password that is truthy but not a string (here the number
  123) makes \<open>bcrypt.compare\<close> reject when, and only when, a user with the email exists:
  the request for an existing email is answered 500 "Login failed", the same request for an
  unknown email 401 "Invalid email or password", so the response tells whether the email is
  registered.
\<close>

theorem login_non_string_password_reveals_user:
  "getUserByEmail demo_db ''ana@example.org'' \<noteq> None \<and>
   getUserByEmail demo_db ''bob@example.org'' = None \<and>
   login demo_env demo_db \<lparr>email = Some ''ana@example.org'', password = Some (JNum 123)\<rparr>
     = Response 500 (ErrorBody ''Login failed'') \<and>
   login demo_env demo_db \<lparr>email = Some ''bob@example.org'', password = Some (JNum 123)\<rparr>
     = Response 401 (ErrorBody ''Invalid email or password'')"
  by (simp add: login_def compare_password_def getUserByEmail_def demo_db_def truthy_str_def)

text \<open>The two responses differ.\<close>

theorem login_non_string_password_reveals_user_witness:
  "login demo_env demo_db \<lparr>email = Some ''ana@example.org'', password = Some (JNum 123)\<rparr>
     \<noteq> login demo_env demo_db
         \<lparr>email = Some ''bob@example.org'', password = Some (JNum 123)\<rparr>"
  using login_non_string_password_reveals_user by simp

subsection \<open>Finalizing a session\<close>

lemma avgConfidence_double_mean:
  "l \<noteq> [] \<Longrightarrow>
   avgConfidence e (Some l) = double_mean e (map (\<lambda>u. or_real (in_confidence u) 0.9) l)"
  by (simp add: avgConfidence_def double_mean_def foldl_map)

lemma to_rows_map:
  "\<forall>x \<in> set xs. to_row e db (f x) = Some (g x) \<Longrightarrow>
   to_rows e db (map f xs) = Some (map g xs)"
  by (induction xs) simp_all

lemma speaker_default:
  "(case or_str sp (Some ''A'') of Some s \<Rightarrow> s | None \<Rightarrow> ''A'')
     = (if truthy_str sp then the sp else ''A'')"
  by (auto simp: or_str_def truthy_str_def split: option.splits)

lemma to_row_accepted:
  assumes "accepted_utterance e i u" and "getSessionById db sid \<noteq> None"
  shows "to_row e db (utterance_value sid i u) = Some (stored_utterance e sid i u)"
proof -
  from assms(1) obtain ot tt st en cf where v:
    "or_str (in_originalText u) (in_text u) = Some ot" "text_col e ot"
    "or_str (in_translatedText u) (in_text u) = Some tt" "text_col e tt"
    "text_col e (if truthy_str (in_speaker u) then the (in_speaker u) else ''A'')"
    "integer_col (or_real (in_startTime u) (real i * 5000)) = Some st"
    "integer_col (or_real (in_endTime u) ((real i + 1) * 5000)) = Some en"
    "real_col e (or_real (in_confidence u) 0.9) = Some cf"
    by (auto simp: accepted_utterance_def split: option.splits)
  show ?thesis
    unfolding to_row_def utterance_value_def stored_utterance_def
    using v assms(2) by (simp add: speaker_default)
qed

lemma createUtterances_utteranceData:
  assumes "us \<noteq> []" and "getSessionById db sid \<noteq> None"
      and "list_all (\<lambda>(i, u). accepted_utterance e i u) (enumerate 0 us)"
  shows "createUtterances e db (utteranceData sid us) =
           Some (db\<lparr>utterances := utterances db @
                     map (\<lambda>(i, u). stored_utterance e sid i u) (enumerate 0 us)\<rparr>)"
proof -
  have "\<forall>x \<in> set (enumerate 0 us).
          to_row e db ((\<lambda>(i, u). utterance_value sid i u) x) =
            Some ((\<lambda>(i, u). stored_utterance e sid i u) x)"
    using assms(2,3) by (auto simp: list_all_iff to_row_accepted)
  then have "to_rows e db (utteranceData sid us) =
               Some (map (\<lambda>(i, u). stored_utterance e sid i u) (enumerate 0 us))"
    unfolding utteranceData_def by (rule to_rows_map)
  with assms(1) show ?thesis
    by (simp add: createUtterances_def utteranceData_def)
qed

lemma find_map_update:
  "find (\<lambda>s. s_id s = sid) xs = Some s \<Longrightarrow>
   find (\<lambda>s. s_id s = sid) (map (\<lambda>s. if s_id s = sid then f s else s) xs) = Some (f s)"
  if "\<And>s. s_id (f s) = s_id s"
  using that by (induction xs) (auto split: if_splits)

lemma updateSession_accepted:
  assumes "getSessionById db sid = Some s"
      and "integer_col (up_duration d) = Some du" and "real_col e (up_avgConfidence d) = Some av"
      and "int32 (up_speakerCount d)" and "int32 (up_totalWordCount d)"
  shows "\<exists>db'. updateSession e db sid d = Some db' \<and> utterances db' = utterances db \<and>
           getSessionById db' sid =
             Some (s\<lparr>s_duration := Some du, s_speakerCount := Some (up_speakerCount d),
                     s_avgConfidence := Some av,
                     s_totalWordCount := Some (up_totalWordCount d)\<rparr>)"
  using assms
    find_map_update [of "\<lambda>s. s\<lparr>s_duration := Some du, s_speakerCount := Some (up_speakerCount d),
                     s_avgConfidence := Some av,
                     s_totalWordCount := Some (up_totalWordCount d)\<rparr>" sid
                     "transcriptionSessions db" s]
  by (simp add: updateSession_def getSessionById_def)

text \<open>
  C3, as the handler has it. A finalize request on an owned session with a non-empty list
  of utterances (strings for speaker and texts, numbers for confidence and times), each
  with an original and a translated text (its own or \<open>text\<close>), all
  of whose values the database takes (times and duration that are 32-bit integers,
  confidences within single precision), succeeds; it appends one row per submitted
  utterance, in order, for that session, each row carrying the submitted fields where they
  are truthy and the handler's defaults otherwise, as the columns store them; the session's
  aggregate confidence becomes the mean of the confidences, a missing or zero confidence
  counting as 0.9, as the handler computes it on doubles and the column rounds it. When
  every submitted confidence is present and non-zero this is the mean of the submitted
  confidences, so computed.
\<close>

theorem finalize_persists_with_defaults:
  assumes "getSessionById db sid = Some s" and "s_userId s = uid"
      and "utterances_in req = Some us" and "us \<noteq> []"
      and "list_all (\<lambda>(i, u). accepted_utterance e i u) (enumerate 0 us)"
      and "accepted_update e req"
  shows "fst (finalize e db uid sid req) = Response 200 (SuccessBody sid) \<and>
         utterances (snd (finalize e db uid sid req)) =
           utterances db @ map (\<lambda>(i, u). stored_utterance e sid i u) (enumerate 0 us) \<and>
         map_option s_avgConfidence (getSessionById (snd (finalize e db uid sid req)) sid) =
           Some (real_col e (double_mean e (map (\<lambda>u. or_real (in_confidence u) 0.9) us))) \<and>
         ((\<forall>u \<in> set us. \<exists>c. in_confidence u = Some c \<and> c \<noteq> 0) \<longrightarrow>
          map_option s_avgConfidence (getSessionById (snd (finalize e db uid sid req)) sid) =
            Some (real_col e (double_mean e (map (\<lambda>u. the (in_confidence u)) us))))"
proof -
  let ?rows = "map (\<lambda>(i, u). stored_utterance e sid i u) (enumerate 0 us)"
  let ?db1 = "db\<lparr>utterances := utterances db @ ?rows\<rparr>"
  let ?d = "\<lparr> up_duration = or_real (duration req) 0,
              up_speakerCount = speakerCount (utterances_in req),
              up_avgConfidence = avgConfidence e (utterances_in req),
              up_totalWordCount = totalWordCount (utterances_in req) \<rparr>"
  have ins: "createUtterances e db (utteranceData sid us) = Some ?db1"
    using assms(1,4,5) by (intro createUtterances_utteranceData) simp_all
  have s1: "getSessionById ?db1 sid = Some s"
    using assms(1) by (simp add: getSessionById_def)
  from assms(6) obtain du av where acc:
    "integer_col (up_duration ?d) = Some du" "real_col e (up_avgConfidence ?d) = Some av"
    "int32 (up_speakerCount ?d)" "int32 (up_totalWordCount ?d)"
    by (auto simp: accepted_update_def)
  from updateSession_accepted [OF s1 acc]
  obtain db2 where db2: "updateSession e ?db1 sid ?d = Some db2"
    "utterances db2 = utterances ?db1"
    "getSessionById db2 sid =
       Some (s\<lparr>s_duration := Some du, s_speakerCount := Some (up_speakerCount ?d),
               s_avgConfidence := Some av,
               s_totalWordCount := Some (up_totalWordCount ?d)\<rparr>)"
    by blast
  have fin: "finalize e db uid sid req = (Response 200 (SuccessBody sid), db2)"
    using assms(1-4) ins db2(1) by (simp add: finalize_def)
  have av: "Some av = real_col e (double_mean e (map (\<lambda>u. or_real (in_confidence u) 0.9) us))"
    using acc(2) assms(3,4) by (simp add: avgConfidence_double_mean)
  have avg: "map_option s_avgConfidence (getSessionById db2 sid) =
           Some (real_col e (double_mean e (map (\<lambda>u. or_real (in_confidence u) 0.9) us)))"
    using db2(3) av by simp
  have same: "map (\<lambda>u. or_real (in_confidence u) 0.9) us = map (\<lambda>u. the (in_confidence u)) us"
    if "\<forall>u \<in> set us. \<exists>c. in_confidence u = Some c \<and> c \<noteq> 0"
    using that by (auto simp: or_real_def)
  have avg': "(\<forall>u \<in> set us. \<exists>c. in_confidence u = Some c \<and> c \<noteq> 0) \<longrightarrow>
          map_option s_avgConfidence (getSessionById db2 sid) =
            Some (real_col e (double_mean e (map (\<lambda>u. the (in_confidence u)) us)))"
  proof
    assume h: "\<forall>u \<in> set us. \<exists>c. in_confidence u = Some c \<and> c \<noteq> 0"
    show "map_option s_avgConfidence (getSessionById db2 sid) =
            Some (real_col e (double_mean e (map (\<lambda>u. the (in_confidence u)) us)))"
      using avg by (simp only: same [OF h])
  qed
  have utt: "utterances db2 = utterances db @ ?rows"
    using db2(2) by simp
  show ?thesis
    unfolding fin fst_conv snd_conv using utt avg avg' by blast
qed

theorem finalize_persists_with_defaults_witness:
  "getSessionById demo_db 7 \<noteq> None \<and>
   list_all (\<lambda>(i, u). accepted_utterance demo_env i u) (enumerate 0 demo_utterances) \<and>
   accepted_update demo_env \<lparr>duration = Some 3, utterances_in = Some demo_utterances\<rparr> \<and>
   fst (finalize demo_env demo_db ''u1'' 7
          \<lparr>duration = Some 3, utterances_in = Some demo_utterances\<rparr>)
     = Response 200 (SuccessBody 7) \<and>
   utterances (snd (finalize demo_env demo_db ''u1'' 7
       \<lparr>duration = Some 3, utterances_in = Some demo_utterances\<rparr>)) =
     [\<lparr> ut_sessionId = 7, ut_speakerLabel = ''A'', ut_originalText = ''hola'',
         ut_translatedText = ''hello'', ut_startTime = Some 0, ut_endTime = Some 1200,
         ut_confidence = Some 0.75 \<rparr>,
      \<lparr> ut_sessionId = 7, ut_speakerLabel = ''B'', ut_originalText = ''buenos dias'',
         ut_translatedText = ''good morning'', ut_startTime = Some 1500,
         ut_endTime = Some 3000, ut_confidence = Some 0.5 \<rparr>] \<and>
   map_option s_avgConfidence (getSessionById (snd (finalize demo_env demo_db ''u1'' 7
       \<lparr>duration = Some 3, utterances_in = Some demo_utterances\<rparr>)) 7) = Some (Some 0.625) \<and>
   map in_confidence demo_utterances = [Some 0.75, Some 0.5] \<and>
   arithmetic_mean [0.75, 0.5] = 0.625"
proof -
  let ?s = "\<lparr> s_id = 7, s_userId = ''u1'', s_sourceLanguage = ''es'', s_targetLanguage = ''en'',
             s_duration = Some 0, s_speakerCount = Some 1, s_avgConfidence = None,
             s_totalWordCount = Some 0 \<rparr>"
  let ?req = "\<lparr>duration = Some 3, utterances_in = Some demo_utterances\<rparr>"
  have h1: "getSessionById demo_db 7 = Some ?s"
    by (simp add: getSessionById_def demo_db_def)
  have h2: "s_userId ?s = ''u1''" by simp
  have h3: "utterances_in ?req = Some demo_utterances" by simp
  have h4: "demo_utterances \<noteq> []" by (simp add: demo_utterances_def)
  have h5: "list_all (\<lambda>(i, u). accepted_utterance demo_env i u) (enumerate 0 demo_utterances)"
    by (simp add: demo_utterances_def accepted_utterance_def demo_env_def or_str_def
          or_real_def truthy_str_def integer_col_def int32_def del: not_None_eq)
  have h6: "accepted_update demo_env ?req"
    by (simp add: accepted_update_def demo_utterances_def demo_env_def avgConfidence_def
          speakerCount_def totalWordCount_def split_length_def or_str_def or_real_def
          truthy_str_def integer_col_def int32_def del: not_None_eq)
  have rows: "map (\<lambda>(i, u). stored_utterance demo_env 7 i u) (enumerate 0 demo_utterances) =
     [\<lparr> ut_sessionId = 7, ut_speakerLabel = ''A'', ut_originalText = ''hola'',
         ut_translatedText = ''hello'', ut_startTime = Some 0, ut_endTime = Some 1200,
         ut_confidence = Some 0.75 \<rparr>,
      \<lparr> ut_sessionId = 7, ut_speakerLabel = ''B'', ut_originalText = ''buenos dias'',
         ut_translatedText = ''good morning'', ut_startTime = Some 1500,
         ut_endTime = Some 3000, ut_confidence = Some 0.5 \<rparr>]"
    by (simp add: demo_utterances_def demo_env_def stored_utterance_def or_str_def or_real_def
          truthy_str_def integer_col_def int32_def)
  have mean: "real_col demo_env
                (double_mean demo_env (map (\<lambda>u. or_real (in_confidence u) 0.9) demo_utterances))
              = Some 0.625"
    by (simp add: demo_utterances_def demo_env_def double_mean_def or_real_def)
  have em: "utterances demo_db = []" by (simp add: demo_db_def)
  have cs: "map in_confidence demo_utterances = [Some 0.75, Some 0.5]"
    by (simp add: demo_utterances_def)
  have am: "arithmetic_mean [0.75, 0.5] = 0.625" by (simp add: arithmetic_mean_def)
  note T = finalize_persists_with_defaults [OF h1 h2 h3 h4 h5 h6]
  from T have a: "fst (finalize demo_env demo_db ''u1'' 7 ?req) = Response 200 (SuccessBody 7)"
    by blast
  from T have b: "utterances (snd (finalize demo_env demo_db ''u1'' 7 ?req)) =
      utterances demo_db @
        map (\<lambda>(i, u). stored_utterance demo_env 7 i u) (enumerate 0 demo_utterances)"
    by blast
  from T have c: "map_option s_avgConfidence
        (getSessionById (snd (finalize demo_env demo_db ''u1'' 7 ?req)) 7) =
      Some (real_col demo_env
              (double_mean demo_env (map (\<lambda>u. or_real (in_confidence u) 0.9) demo_utterances)))"
    by blast
  from h1 have h1': "getSessionById demo_db 7 \<noteq> None" by simp
  show ?thesis
    using h1' h5 h6 a b [unfolded rows em append_Nil] c [unfolded mean] cs am
    by (intro conjI)
qed

text \<open>
  C3 as stated fails for a submitted confidence of 0: the mean of the submitted values is
  0, the stored aggregate and the stored utterance both carry the single nearest to 0.9.
\<close>

theorem finalize_zero_confidence_counterexample:
  "fst (finalize demo_env demo_db ''u1'' 7
       \<lparr>duration = Some 3, utterances_in = Some [zero_confidence_utterance]\<rparr>)
     = Response 200 (SuccessBody 7) \<and>
   map_option s_avgConfidence (getSessionById (snd (finalize demo_env demo_db ''u1'' 7
       \<lparr>duration = Some 3, utterances_in = Some [zero_confidence_utterance]\<rparr>)) 7)
     = Some (Some (15099494 / 16777216)) \<and>
   in_confidence zero_confidence_utterance = Some 0 \<and> arithmetic_mean [0] = 0 \<and>
   map ut_confidence (utterances (snd (finalize demo_env demo_db ''u1'' 7
       \<lparr>duration = Some 3, utterances_in = Some [zero_confidence_utterance]\<rparr>)))
     = [Some (15099494 / 16777216)]"
  by (simp add: finalize_def getSessionById_def demo_db_def zero_confidence_utterance_def
        createUtterances_def utteranceData_def utterance_value_def to_row_def
        updateSession_def avgConfidence_def speakerCount_def totalWordCount_def
        split_length_def demo_env_def arithmetic_mean_def or_str_def or_real_def
        truthy_str_def integer_col_def int32_def)

text \<open>
  Values a column does not take. A start time of 3000000000 ms is no 32-bit integer: the
  insert is rejected, the response is 500 and nothing is stored. A duration of 3000000000
  is rejected by the update after the rows have been inserted: the response is 500, the
  rows stay and the session is not updated.
\<close>

lemma finalize_time_out_of_range:
  "finalize demo_env demo_db ''u1'' 7
       \<lparr>duration = Some 3, utterances_in = Some [late_utterance]\<rparr>
     = (Response 500 (ErrorBody ''Failed to finalize session''), demo_db)"
  by (simp add: finalize_def getSessionById_def demo_db_def late_utterance_def
        createUtterances_def utteranceData_def utterance_value_def to_row_def
        demo_env_def or_str_def or_real_def truthy_str_def integer_col_def int32_def)

lemma finalize_duration_out_of_range:
  "fst (finalize demo_env demo_db ''u1'' 7
       \<lparr>duration = Some 3000000000, utterances_in = Some demo_utterances\<rparr>)
     = Response 500 (ErrorBody ''Failed to finalize session'') \<and>
   length (utterances (snd (finalize demo_env demo_db ''u1'' 7
       \<lparr>duration = Some 3000000000, utterances_in = Some demo_utterances\<rparr>))) = 2 \<and>
   transcriptionSessions (snd (finalize demo_env demo_db ''u1'' 7
       \<lparr>duration = Some 3000000000, utterances_in = Some demo_utterances\<rparr>))
     = transcriptionSessions demo_db"
  by (simp add: finalize_def getSessionById_def demo_db_def demo_utterances_def
        createUtterances_def utteranceData_def utterance_value_def to_row_def
        updateSession_def avgConfidence_def speakerCount_def totalWordCount_def
        split_length_def demo_env_def or_str_def or_real_def
        truthy_str_def integer_col_def int32_def)

subsection \<open>Relay: authentication before start\<close>

lemma get_prop_JNull [simp]: "get_prop JNull k = None"
  by (simp add: get_prop_def)

lemma on_client_message_command:
  assumes "is_command e d t"
  obtains message where "JSON_parse e d = Some message" and "message \<noteq> JNull"
    and "get_prop message ''type'' = Some (JStr t)" and "is_control d"
proof -
  from assms obtain message where m: "JSON_parse e d = Some message"
      "get_prop message ''type'' = Some (JStr t)" "is_control d"
    by (auto simp: is_command_def split: option.splits)
  from m(2) have "message \<noteq> JNull" by auto
  with m that show thesis by blast
qed

lemma assembly_open_unauthenticated: "unauthenticated c \<Longrightarrow> assembly_open c = None"
  by (simp add: unauthenticated_def assembly_open_def)

lemma step_unauthenticated:
  assumes "unauthenticated c" and "\<not> successful_auth e ev"
  shows "unauthenticated (step e c ev)"
proof (cases ev)
  case (ClientMessage d)
  show ?thesis
  proof (cases "is_control d")
    case True
    with assms ClientMessage show ?thesis
      by (auto simp: on_client_message_def on_auth_def on_start_def on_stop_def
            terminate_assembly_def assembly_open_unauthenticated
            successful_auth_def is_command_def unauthenticated_def client_send_def
            client_close_def split: option.splits)
  next
    case False
    with assms ClientMessage show ?thesis
      by (auto simp: on_client_message_def assembly_open_unauthenticated
            split: ws_data.splits)
  qed
next
  case ClientClose
  with assms show ?thesis
    by (simp add: on_client_close_def terminate_assembly_def assembly_open_def
          unauthenticated_def)
qed (use assms in \<open>simp_all add: unauthenticated_def\<close>)

lemma run_unauthenticated:
  "unauthenticated c \<Longrightarrow> list_all (\<lambda>ev. \<not> successful_auth e ev) evs \<Longrightarrow>
   unauthenticated (run e c evs)"
  unfolding run_def
  by (induction evs arbitrary: c) (simp_all add: step_unauthenticated)

text \<open>
  C2. On a connection that has processed no \<open>auth\<close> message with a verifying token,
  whatever else has happened on it, a \<open>start\<close> command is answered with the message
  \<open>{type: "error", message: "Not authenticated"}\<close> and changes nothing else; no socket
  to the transcription provider exists before or after it.
\<close>

theorem start_rejected_until_authenticated:
  assumes "list_all (\<lambda>ev. \<not> successful_auth e ev) evs"
      and "is_command e d ''start''"
  shows "step e (run e new_connection evs) (ClientMessage d) =
           client_send (Error_message ''Not authenticated'') (run e new_connection evs) \<and>
         c_sent (clientWs (step e (run e new_connection evs) (ClientMessage d))) =
           c_sent (clientWs (run e new_connection evs)) @
             [Error_message ''Not authenticated''] \<and>
         message_type (Error_message ''Not authenticated'') = ''error'' \<and>
         provider_sockets (run e new_connection evs) = [] \<and>
         provider_sockets (step e (run e new_connection evs) (ClientMessage d)) = []"
proof -
  have "unauthenticated new_connection"
    by (simp add: unauthenticated_def new_connection_def)
  then have u: "unauthenticated (run e new_connection evs)"
    using assms(1) by (rule run_unauthenticated)
  from assms(2) obtain message where "JSON_parse e d = Some message" "message \<noteq> JNull"
    "get_prop message ''type'' = Some (JStr ''start'')" "is_control d"
    by (rule on_client_message_command)
  with u show ?thesis
    by (simp add: on_client_message_def on_start_def unauthenticated_def client_send_def)
qed

theorem start_rejected_until_authenticated_witness:
  "list_all (\<lambda>ev. \<not> successful_auth demo_env ev)
     [ClientMessage stop_frame, ClientMessage (Buf [1, 2])] \<and>
   is_command demo_env start_frame ''start'' \<and>
   c_sent (clientWs (step demo_env
       (run demo_env new_connection [ClientMessage stop_frame, ClientMessage (Buf [1, 2])])
       (ClientMessage start_frame))) = [Stopped, Error_message ''Not authenticated''] \<and>
   provider_sockets (step demo_env
       (run demo_env new_connection [ClientMessage stop_frame, ClientMessage (Buf [1, 2])])
       (ClientMessage start_frame)) = []"
proof -
  have h1: "list_all (\<lambda>ev. \<not> successful_auth demo_env ev)
     [ClientMessage stop_frame, ClientMessage (Buf [1, 2])]"
    by code_simp
  have h2: "is_command demo_env start_frame ''start''"
    by code_simp
  have r: "c_sent (clientWs (run demo_env new_connection
              [ClientMessage stop_frame, ClientMessage (Buf [1, 2])])) = [Stopped]"
    by code_simp
  from start_rejected_until_authenticated [OF h1 h2] h1 h2 r show ?thesis
    by (simp add: client_send_def)
qed

subsection \<open>Relay: control frames and audio frames\<close>

lemma is_control_Buf: "is_control (Buf bs) = (take 1 bs = [123])"
  by (cases bs) (simp_all add: is_control_def)

lemma assembly_openD:
  "assembly_open c = Some i \<Longrightarrow>
   assemblyWs c = Some i \<and> i < length (provider_sockets c) \<and>
   p_readyState (provider_sockets c ! i) = OPEN"
  by (auto simp: assembly_open_def split: option.splits if_splits)

lemma provider_socket_fields:
  "(s :: provider_socket)\<lparr>p_sent := a, p_readyState := b\<rparr> = \<lparr> p_readyState = b, p_sent = a \<rparr>"
  by (cases s) simp

lemma terminate_assembly_open:
  assumes "assembly_open c = Some i"
  shows "terminate_assembly c =
           c\<lparr>provider_sockets := (provider_sockets c)
                [i := \<lparr> p_readyState = CLOSING,
                        p_sent = p_sent (provider_sockets c ! i) @ [Terminate_session] \<rparr>]\<rparr>"
  using assembly_openD [OF assms]
  by (simp add: terminate_assembly_def assms provider_close_def provider_send_def ws_close_def
        provider_socket_fields)

lemma terminate_assembly_not_open:
  "assembly_open c = None \<Longrightarrow> terminate_assembly c = c"
  by (simp add: terminate_assembly_def)

lemma audio_sent_update:
  assumes "i < length (provider_sockets c)"
      and "filter is_audio (p_sent s) = filter is_audio (p_sent (provider_sockets c ! i))"
  shows "audio_sent (c\<lparr>provider_sockets := (provider_sockets c)[i := s]\<rparr>) = audio_sent c"
proof -
  have "map (\<lambda>s. filter is_audio (p_sent s)) ((provider_sockets c)[i := s])
          = map (\<lambda>s. filter is_audio (p_sent s)) (provider_sockets c)"
    using assms by (simp add: map_update list_update_same_conv)
  then show ?thesis by (simp add: audio_sent_def)
qed

lemma audio_sent_terminate_assembly: "audio_sent (terminate_assembly c) = audio_sent c"
proof (cases "assembly_open c")
  case None
  then show ?thesis by (simp add: terminate_assembly_not_open)
next
  case (Some i)
  with assembly_openD [OF Some] show ?thesis
    by (simp add: terminate_assembly_open audio_sent_update)
qed

lemma audio_sent_clientWs [simp]: "audio_sent (c\<lparr>clientWs := w\<rparr>) = audio_sent c"
  by (simp add: audio_sent_def)

text \<open>
  C8. A binary frame whose first byte is 123 is read as a control message: whatever it
  contains, handling it sends no audio message to the provider on any socket, also while
  the provider socket is open; and when it does not parse as JSON the handler leaves the
  connection exactly as it was (nothing sent, no socket closed).
\<close>

theorem brace_frame_is_control:
  "audio_sent (step e c (ClientMessage (Buf (123 # bs)))) = audio_sent c \<and>
   (JSON_parse e (Buf (123 # bs)) = None \<longrightarrow>
      step e c (ClientMessage (Buf (123 # bs))) = c)"
proof -
  have ctl: "is_control (Buf (123 # bs))" by (simp add: is_control_def)
  have auth: "audio_sent (on_auth e c m) = audio_sent c" for m
    by (simp add: on_auth_def client_send_def client_close_def audio_sent_def
          split: option.splits)
  have start: "audio_sent (on_start e c m) = audio_sent c" for m
    by (simp add: on_start_def client_send_def Let_def audio_sent_def)
  have stop: "audio_sent (on_stop c) = audio_sent c"
    by (simp add: on_stop_def client_send_def audio_sent_terminate_assembly)
  show ?thesis
    using ctl by (simp add: on_client_message_def auth start stop split: option.splits)
qed

theorem brace_frame_is_control_witness:
  "assembly_open streaming = Some 0 \<and>
   JSON_parse demo_env (Buf [123, 0]) = None \<and>
   step demo_env streaming (ClientMessage (Buf [123, 0])) = streaming \<and>
   audio_sent (step demo_env streaming (ClientMessage (Buf [123, 0]))) = []"
proof -
  have h: "JSON_parse demo_env (Buf [123, 0]) = None" by code_simp
  have o: "assembly_open streaming = Some 0" by code_simp
  have a: "audio_sent streaming = []" by code_simp
  from brace_frame_is_control [of demo_env streaming "[0]"] h o a show ?thesis by simp
qed

lemma b64_distinct: "distinct b64_alphabet"
  by (simp add: b64_alphabet_def)

lemma b64_length: "length b64_alphabet = 64"
  by (simp add: b64_alphabet_def)

lemma b64_char_inj: "m < 64 \<Longrightarrow> n < 64 \<Longrightarrow> b64_char m = b64_char n \<Longrightarrow> m = n"
  using nth_eq_iff_index_eq [OF b64_distinct, of m n]
  by (simp add: b64_char_def b64_length)

lemma b64_char_not_pad: "b64_char n \<noteq> CHR ''=''"
proof -
  have "CHR ''='' \<notin> set b64_alphabet" by (simp add: b64_alphabet_def)
  moreover have "b64_char n \<in> set b64_alphabet"
    by (simp add: b64_char_def b64_length)
  ultimately show ?thesis by metis
qed

lemma unat_byte: "unat (a :: 8 word) < 256"
  using unsigned_less [of a, where 'a = nat] by simp

lemma split_digits:
  fixes x y x' y' k :: nat
  assumes "y < k" "y' < k" "x * k + y = x' * k + y'"
  shows "x = x' \<and> y = y'"
proof -
  have "(x * k + y) div k = x" "(x * k + y) mod k = y"
    using assms(1) by simp_all
  moreover have "(x' * k + y') div k = x'" "(x' * k + y') mod k = y'"
    using assms(2) by simp_all
  ultimately show ?thesis using assms(3) by metis
qed

lemma sextets3:
  fixes a b c a' b' c' :: nat
  assumes "a < 256" "b < 256" "c < 256" "a' < 256" "b' < 256" "c' < 256"
      and "b64_char (a div 4) = b64_char (a' div 4)"
      and "b64_char (a mod 4 * 16 + b div 16) = b64_char (a' mod 4 * 16 + b' div 16)"
      and "b64_char (b mod 16 * 4 + c div 64) = b64_char (b' mod 16 * 4 + c' div 64)"
      and "b64_char (c mod 64) = b64_char (c' mod 64)"
  shows "a = a' \<and> b = b' \<and> c = c'"
proof -
  have b16: "b div 16 < 16" "b' div 16 < 16" using assms(2,5) by simp_all
  have c64: "c div 64 < 4" "c' div 64 < 4" using assms(3,6) by simp_all
  have 1: "a div 4 = a' div 4"
    using assms(1,4,7) by (intro b64_char_inj) simp_all
  have "a mod 4 * 16 + b div 16 < 64" "a' mod 4 * 16 + b' div 16 < 64"
    using b16 by (simp_all add: less_Suc_eq_le [symmetric]) 
  then have "a mod 4 * 16 + b div 16 = a' mod 4 * 16 + b' div 16"
    using assms(8) by (intro b64_char_inj)
  with b16 have 2: "a mod 4 = a' mod 4 \<and> b div 16 = b' div 16"
    by (intro split_digits [where k = 16])
  have "b mod 16 * 4 + c div 64 < 64" "b' mod 16 * 4 + c' div 64 < 64"
    using c64 by simp_all
  then have "b mod 16 * 4 + c div 64 = b' mod 16 * 4 + c' div 64"
    using assms(9) by (intro b64_char_inj)
  with c64 have 3: "b mod 16 = b' mod 16 \<and> c div 64 = c' div 64"
    by (intro split_digits [where k = 4])
  have 4: "c mod 64 = c' mod 64"
    using assms(10) by (intro b64_char_inj) simp_all
  have "a = a'" using 1 2 by (metis div_mult_mod_eq)
  moreover have "b = b'" using 2 3 by (metis div_mult_mod_eq)
  moreover have "c = c'" using 3 4 by (metis div_mult_mod_eq)
  ultimately show ?thesis by simp
qed


lemma sextets_bytes:
  fixes a b c a' b' c' :: "8 word"
  assumes "b64_char (unat a div 4) = b64_char (unat a' div 4)"
      and "b64_char (unat a mod 4 * 16 + unat b div 16) =
           b64_char (unat a' mod 4 * 16 + unat b' div 16)"
      and "b64_char (unat b mod 16 * 4 + unat c div 64) =
           b64_char (unat b' mod 16 * 4 + unat c' div 64)"
      and "b64_char (unat c mod 64) = b64_char (unat c' mod 64)"
  shows "a = a' \<and> b = b' \<and> c = c'"
  using sextets3 [OF unat_byte unat_byte unat_byte unat_byte unat_byte unat_byte assms]
  by (simp add: word_unat_eq_iff)

lemma base64_Nil: "base64 ys = [] \<Longrightarrow> ys = []"
  by (cases ys rule: base64.cases) simp_all

lemma base64_inject: "base64 xs = base64 ys \<Longrightarrow> xs = ys"
proof (induction xs arbitrary: ys rule: base64.induct)
  case 1
  then have "base64 ys = []" by simp
  then show ?case by (auto dest: base64_Nil)
next
  case (2 a)
  show ?case
  proof (cases ys rule: base64.cases)
    case (2 a')
    with "2.prems" sextets_bytes [of a a' 0 0 0 0] show ?thesis by simp
  qed (use "2.prems" b64_char_not_pad in \<open>auto dest: sym\<close>)
next
  case (3 a b)
  show ?case
  proof (cases ys rule: base64.cases)
    case (3 a' b')
    with "3.prems" sextets_bytes [of a a' b b' 0 0] show ?thesis by simp
  qed (use "3.prems" b64_char_not_pad in \<open>auto dest: sym\<close>)
next
  case (4 a b c rest)
  show ?case
  proof (cases ys rule: base64.cases)
    case (4 a' b' c' rest')
    with "4.prems" sextets_bytes [of a a' b b' c c'] "4.IH" [of rest'] show ?thesis by simp
  qed (use "4.prems" b64_char_not_pad in \<open>auto dest: sym\<close>)
qed

lemma assembly_open_provider_send:
  "assembly_open c = Some i \<Longrightarrow> assembly_open (provider_send i m c) = Some i"
  by (auto simp: assembly_open_def provider_send_def split: option.splits if_splits)

lemma audio_frame_step:
  assumes "assembly_open c = Some i" and "\<not> is_control (Buf bs)"
  shows "step e c (ClientMessage (Buf bs)) = provider_send i (Audio_data (base64 bs)) c"
  using assms by (simp add: on_client_message_def)

lemma audio_frames_run:
  assumes "assembly_open c = Some i" and "list_all (\<lambda>bs. \<not> is_control (Buf bs)) frames"
  shows "run e c (map (\<lambda>bs. ClientMessage (Buf bs)) frames) =
           c\<lparr>provider_sockets := (provider_sockets c)
                [i := (provider_sockets c ! i)
                   \<lparr>p_sent := p_sent (provider_sockets c ! i) @
                               map (\<lambda>bs. Audio_data (base64 bs)) frames\<rparr>]\<rparr>"
  using assms
proof (induction frames arbitrary: c)
  case Nil
  then show ?case by (simp add: run_def)
next
  case (Cons bs frames)
  let ?c1 = "provider_send i (Audio_data (base64 bs)) c"
  have s: "step e c (ClientMessage (Buf bs)) = ?c1"
    using Cons.prems by (intro audio_frame_step) simp_all
  have o: "assembly_open ?c1 = Some i"
    using Cons.prems(1) by (rule assembly_open_provider_send)
  have "run e c (map (\<lambda>bs. ClientMessage (Buf bs)) (bs # frames))
          = run e ?c1 (map (\<lambda>bs. ClientMessage (Buf bs)) frames)"
    using s by (simp add: run_def)
  also have "\<dots> = ?c1\<lparr>provider_sockets := (provider_sockets ?c1)
                [i := (provider_sockets ?c1 ! i)
                   \<lparr>p_sent := p_sent (provider_sockets ?c1 ! i) @
                               map (\<lambda>bs. Audio_data (base64 bs)) frames\<rparr>]\<rparr>"
    using Cons.IH [OF o] Cons.prems(2) by simp
  also have "\<dots> = c\<lparr>provider_sockets := (provider_sockets c)
                [i := (provider_sockets c ! i)
                   \<lparr>p_sent := p_sent (provider_sockets c ! i) @
                               map (\<lambda>bs. Audio_data (base64 bs)) (bs # frames)\<rparr>]\<rparr>"
    using assembly_openD [OF Cons.prems(1)] by (simp add: provider_send_def)
  finally show ?case .
qed

text \<open>
  While the provider socket is open, every binary frame that is not read as a control
  message (its first byte is not 123, see \<open>is_control_Buf\<close>) is sent to the provider at
  once as one \<open>audio_data\<close> message holding the base64 text of the frame's bytes: after a
  run of such frames the provider has received one message per frame, in order, and
  nothing was sent to the client. The encoding loses nothing: different frames give
  different messages.
\<close>

lemma audio_frames_forwarded:
  assumes "assembly_open c = Some i" and "list_all (\<lambda>bs. \<not> is_control (Buf bs)) frames"
  shows "provider_sockets (run e c (map (\<lambda>bs. ClientMessage (Buf bs)) frames)) =
           (provider_sockets c)
             [i := (provider_sockets c ! i)
                \<lparr>p_sent := p_sent (provider_sockets c ! i) @
                            map (\<lambda>bs. Audio_data (base64 bs)) frames\<rparr>] \<and>
         clientWs (run e c (map (\<lambda>bs. ClientMessage (Buf bs)) frames)) = clientWs c \<and>
         inj (\<lambda>bs. Audio_data (base64 bs))"
proof -
  have "inj (\<lambda>bs. Audio_data (base64 bs))"
    by (auto simp: inj_def dest: base64_inject)
  then show ?thesis
    by (simp add: audio_frames_run [OF assms])
qed

lemma audio_frames_forwarded_example:
  "assembly_open streaming = Some 0 \<and>
   list_all (\<lambda>bs. \<not> is_control (Buf bs)) [[77, 97, 110], [1, 2, 3, 4 :: 8 word]] \<and>
   provider_sockets (run demo_env streaming
        (map (\<lambda>bs. ClientMessage (Buf bs)) [[77, 97, 110], [1, 2, 3, 4]])) =
     [\<lparr> p_readyState = OPEN, p_sent = [Audio_data ''TWFu'', Audio_data ''AQIDBA==''] \<rparr>]"
proof -
  have o: "assembly_open streaming = Some 0" by code_simp
  have f: "list_all (\<lambda>bs. \<not> is_control (Buf bs)) [[77, 97, 110], [1, 2, 3, 4 :: 8 word]]"
    by (simp add: is_control_def)
  have p: "provider_sockets streaming = [\<lparr> p_readyState = OPEN, p_sent = [] \<rparr>]"
    by code_simp
  have b1: "base64 [77, 97, 110] = ''TWFu''" by code_simp
  have b2: "base64 [1, 2, 3, 4] = ''AQIDBA==''" by code_simp
  from audio_frames_forwarded [OF o f, of demo_env] o f p b1 b2 show ?thesis
    by simp
qed

text \<open>
  C6 fails on the handler. The client's audio capture sends raw 16-bit samples
  (\<open>send(int16Data.buffer)\<close>), and a frame whose first sample has the low byte 123 is
  taken for a control message by the test \<open>data[0] === 123\<close>: with the provider socket
  open it is parsed as JSON, the parse error is logged, and nothing is forwarded. The
  same frame with a first byte of 122 is forwarded.
\<close>

theorem pcm_frame_starting_with_brace_dropped:
  "assembly_open streaming = Some 0 \<and>
   pcm_frame = Buf [123, 0, 16, 0] \<and>
   step demo_env streaming (ClientMessage pcm_frame) = streaming \<and>
   map p_sent (provider_sockets (step demo_env streaming (ClientMessage pcm_frame))) = [[]] \<and>
   map p_sent (provider_sockets (step demo_env streaming (ClientMessage pcm_frame'))) =
     [[Audio_data ''egAQAA=='']]"
  by code_simp

subsection \<open>Relay: results from the provider\<close>




lemma translated_text_untranslated:
  assumes "sessionConfig c = None \<or> \<not> truthy_str (assemblyApiKey c) \<or>
           (\<exists>cfg. sessionConfig c = Some cfg \<and>
                  strict_eq (cfg_sourceLanguage cfg) (cfg_targetLanguage cfg))"
  shows "translated_text e c text = Some text"
  using assms by (auto simp: translated_text_def split: option.splits)




subsection \<open>Relay: tearing down\<close>

lemma provider_sockets_terminate_assembly:
  "provider_sockets (terminate_assembly (c\<lparr>clientWs := w\<rparr>)) =
     provider_sockets (terminate_assembly c)"
  by (simp add: terminate_assembly_def assembly_open_def provider_close_def provider_send_def
        split: option.splits)

lemma clientWs_terminate_assembly: "clientWs (terminate_assembly c) = clientWs c"
  by (simp add: terminate_assembly_def provider_close_def provider_send_def split: option.splits)

text \<open>
  When the client socket closes while the provider socket the connection holds (the one
  \<open>assemblyWs\<close> refers to) is open, the relay sends that socket the terminate message and
  calls \<open>close\<close> on it: it is no longer open, and the terminate message is the last thing
  sent on it. Every other entry of \<open>provider_sockets\<close> is left as it was.
\<close>

lemma client_close_terminates_provider:
  assumes "assemblyWs c = Some i" and "i < length (provider_sockets c)"
      and "p_readyState (provider_sockets c ! i) = OPEN"
  shows "provider_sockets (step e c ClientClose) =
           (provider_sockets c)
             [i := \<lparr> p_readyState = CLOSING,
                     p_sent = p_sent (provider_sockets c ! i) @ [Terminate_session] \<rparr>] \<and>
         p_readyState (provider_sockets (step e c ClientClose) ! i) \<noteq> OPEN \<and>
         last (p_sent (provider_sockets (step e c ClientClose) ! i)) = Terminate_session \<and>
         c_readyState (clientWs (step e c ClientClose)) = CLOSED"
proof -
  have o: "assembly_open c = Some i"
    using assms by (simp add: assembly_open_def)
  have "provider_sockets (step e c ClientClose) = provider_sockets (terminate_assembly c)"
    by (simp add: on_client_close_def provider_sockets_terminate_assembly)
  moreover have "clientWs (step e c ClientClose) = (clientWs c)\<lparr>c_readyState := CLOSED\<rparr>"
    by (simp add: on_client_close_def clientWs_terminate_assembly)
  ultimately show ?thesis
    using assms(2) by (simp add: terminate_assembly_open [OF o])
qed

lemma client_close_terminates_provider_example:
  "assemblyWs streaming = Some 0 \<and> 0 < length (provider_sockets streaming) \<and>
   p_readyState (provider_sockets streaming ! 0) = OPEN \<and>
   provider_sockets (step demo_env streaming ClientClose) =
     [\<lparr> p_readyState = CLOSING, p_sent = [Terminate_session] \<rparr>] \<and>
   c_readyState (clientWs (step demo_env streaming ClientClose)) = CLOSED"
proof -
  have h1: "assemblyWs streaming = Some 0" by code_simp
  have h2: "0 < length (provider_sockets streaming)" by code_simp
  have h3: "p_readyState (provider_sockets streaming ! 0) = OPEN" by code_simp
  have p: "provider_sockets streaming = [\<lparr> p_readyState = OPEN, p_sent = [] \<rparr>]"
    by code_simp
  from client_close_terminates_provider [OF h1 h2 h3, of demo_env] h1 h2 h3 show ?thesis
    by (simp add: p)
qed

text \<open>
  C5 fails on the handler. A second \<open>start\<close> command replaces \<open>assemblyWs\<close> by a new
  socket without closing the one it held. When the client socket then closes while the
  provider socket is open, only the socket \<open>assemblyWs\<close> refers to is terminated and
  closed: the first provider socket stays open, with nothing sent to it.
\<close>

theorem second_start_leaks_provider_socket:
  "assembly_open (run demo_env new_connection
      [ClientMessage auth_frame, ClientMessage start_frame, AssemblyOpen 0,
       ClientMessage start_frame, AssemblyOpen 1]) = Some 1 \<and>
   provider_sockets (run demo_env new_connection
      [ClientMessage auth_frame, ClientMessage start_frame, AssemblyOpen 0,
       ClientMessage start_frame, AssemblyOpen 1, ClientClose]) =
     [\<lparr> p_readyState = OPEN, p_sent = [] \<rparr>,
      \<lparr> p_readyState = CLOSING, p_sent = [Terminate_session] \<rparr>] \<and>
   c_readyState (clientWs (run demo_env new_connection
      [ClientMessage auth_frame, ClientMessage start_frame, AssemblyOpen 0,
       ClientMessage start_frame, AssemblyOpen 1, ClientClose])) = CLOSED"
  by code_simp




subsection \<open>Relay: provider errors\<close>

lemma ws_close_not_OPEN [simp]: "ws_close r \<noteq> OPEN"
  by (simp add: ws_close_def)

text \<open>
  C7, as the handler has it. An error on a provider socket is reported to the client as
  one message \<open>{type: "error", message: "Transcription service error"}\<close>; the handler
  opens no new provider socket and closes nothing. The socket with the error is no longer
  open when the handler runs (the library is closing it), so no audio is forwarded to it
  afterwards; the other provider sockets and the state of the client socket are as they
  were.
\<close>

theorem provider_error_reported:
  assumes "i < length (provider_sockets c)"
  shows "c_sent (clientWs (step e c (AssemblyError i))) =
           c_sent (clientWs c) @ [Error_message ''Transcription service error''] \<and>
         message_type (Error_message ''Transcription service error'') = ''error'' \<and>
         c_readyState (clientWs (step e c (AssemblyError i))) = c_readyState (clientWs c) \<and>
         provider_sockets (step e c (AssemblyError i)) =
           (provider_sockets c)
             [i := (provider_sockets c ! i)
                     \<lparr>p_readyState := ws_close (p_readyState (provider_sockets c ! i))\<rparr>] \<and>
         p_readyState (provider_sockets (step e c (AssemblyError i)) ! i) \<noteq> OPEN \<and>
         assembly_open (step e c (AssemblyError i)) \<noteq> Some i \<and>
         assemblyWs (step e c (AssemblyError i)) = assemblyWs c \<and>
         isAuthenticated (step e c (AssemblyError i)) = isAuthenticated c"
  using assms
  by (auto simp: on_assembly_error_def client_send_def set_provider_state_def assembly_open_def
        split: option.splits)

theorem provider_error_reported_witness:
  "0 < length (provider_sockets streaming) \<and>
   c_sent (clientWs (step demo_env streaming (AssemblyError 0))) =
     [Auth_success, Ready, Error_message ''Transcription service error''] \<and>
   c_readyState (clientWs (step demo_env streaming (AssemblyError 0))) = OPEN \<and>
   provider_sockets (step demo_env streaming (AssemblyError 0)) =
     [\<lparr> p_readyState = CLOSING, p_sent = [] \<rparr>]"
proof -
  have h: "0 < length (provider_sockets streaming)" by code_simp
  have p: "provider_sockets streaming = [\<lparr> p_readyState = OPEN, p_sent = [] \<rparr>]"
    by code_simp
  have c: "clientWs streaming = \<lparr> c_readyState = OPEN, c_sent = [Auth_success, Ready] \<rparr>"
    by code_simp
  from provider_error_reported [OF h, of demo_env] h show ?thesis
    by (simp add: p c ws_close_def)
qed

text \<open>
  C7 as stated fails: after a provider error, and the closing of the provider socket that
  follows it, the client socket is still open, and a further \<open>start\<close> command opens a
  new provider socket.
\<close>

theorem provider_error_relay_continues_counterexample:
  "c_readyState (clientWs (run demo_env new_connection
      [ClientMessage auth_frame, ClientMessage start_frame, AssemblyOpen 0,
       AssemblyError 0, AssemblyClose 0])) = OPEN \<and>
   map p_readyState (provider_sockets (run demo_env new_connection
      [ClientMessage auth_frame, ClientMessage start_frame, AssemblyOpen 0,
       AssemblyError 0, AssemblyClose 0, ClientMessage start_frame, AssemblyOpen 1])) =
     [CLOSED, OPEN]"
  by code_simp

end
